theory Spec2Isabelle
  imports Complex_Main "HOL-Library.Char_ord" "HOL-Library.List_Lexorder"
    "HOL-Library.Product_Lexorder" "HOL-Library.Option_ord"
begin

section \<open>The OpenSciMetrics dashboard: \<^verbatim>\<open>src/web/dashboard/main_dashboard.py\<close>\<close>

text \<open>
  A shallow embedding of the class \<^verbatim>\<open>MainDashboard\<close>. The dataset is a list of
  publication records (the rows of the pandas frame), the parameters of the class are the
  fields of a record that every method takes and returns, and an exception is a value
  \<open>Inl\<close> of a sum type. Strings are compared as Python compares them (code point order,
  which on UTF-8 bytes is the order of \<^verbatim>\<open>HOL-Library.Char_ord\<close> lifted to lists).
\<close>

subsection \<open>Formatting integers\<close>

text \<open>Python's \<^verbatim>\<open>str(n)\<close> inside an f-string: the decimal digits of \<open>n\<close>.\<close>

fun string_of_nat :: "nat \<Rightarrow> string" where
  "string_of_nat n =
     (if n < 10 then [''0123456789'' ! n]
      else string_of_nat (n div 10) @ [''0123456789'' ! (n mod 10)])"

declare string_of_nat.simps [simp del]

text \<open>The same for \<^verbatim>\<open>int(x)\<close> of a year, which may be negative.\<close>

function int_digits :: "int \<Rightarrow> string" where
  "int_digits n =
     (if n < 10 then [''0123456789'' ! nat n]
      else int_digits (n div 10) @ [''0123456789'' ! nat (n mod 10)])"
  by pat_completeness auto
termination
  by (relation "measure nat") auto

declare int_digits.simps [simp del]

definition string_of_int :: "int \<Rightarrow> string" where
  "string_of_int i = (if i < 0 then ''-'' @ int_digits (- i) else int_digits i)"

subsection \<open>Errors\<close>

text \<open>
  The exceptions a run of the dashboard code can end in. The last three are the error names
  of the specification; no statement of the source raises them.
\<close>

datatype error =
    KeyError | IndexError | AttributeError | UnboundLocalError | ValueError
  | UndefinedVariableError
  | InsufficientDataError | InvalidFilterError | UnknownMetricError

subsection \<open>The dataset\<close>

text \<open>
  One row of \<^verbatim>\<open>raw_data\<close>. The country cell is a tuple of strings, or Python's
  \<^verbatim>\<open>None\<close>, which \<^verbatim>\<open>get_countries_with_count\<close> and \<^verbatim>\<open>country_filter\<close> test for
  (\<^verbatim>\<open>load_data\<close> replaces an empty cell by the tuple \<^verbatim>\<open>("None",)\<close>). The funder institute
  is a string or missing.
\<close>

record publication =
  year :: int
  journal :: string
  affiliation_country :: "string list option"
  fund_pmc_institute :: "string option"
  is_data_pred :: bool
  is_code_pred :: bool

text \<open>The module's tables, as Python dicts in their written order.\<close>

definition extraction_tools_params :: "(string \<times> (string list \<times> string list)) list" where
  "extraction_tools_params =
     [(''RTransparent'',
       ([''is_data_pred'', ''is_code_pred''],
        [''None'', ''journal'', ''affiliation_country'', ''fund_pmc_institute'']))]"

definition dims_aggregations :: "(string \<times> string list) list" where
  "dims_aggregations =
     [(''is_data_pred'', [''percent'', ''count_true'']),
      (''is_code_pred'', [''percent'', ''count_true''])]"

definition metrics_titles :: "(string \<times> string) list" where
  "metrics_titles =
     [(''percent_is_data_pred'', ''Data Sharing (%)''),
      (''percent_is_code_pred'', ''Code Sharing (%)''),
      (''count_true_is_data_pred'', ''Data Sharing''),
      (''count_true_is_code_pred'', ''Code Sharing''),
      (''mean_score'', ''Mean Score''),
      (''mean_eigenfactor_score'', ''Mean Eigenfactor Score'')]"

definition metrics_by_title :: "(string \<times> string) list" where
  "metrics_by_title = map (\<lambda>(k, v). (v, k)) metrics_titles"

text \<open>\<^verbatim>\<open>d[k]\<close> on a dict: the value, or \<^verbatim>\<open>KeyError\<close>.\<close>

definition getitem :: "('k \<times> 'v) list \<Rightarrow> 'k \<Rightarrow> error + 'v" where
  "getitem d k = (case map_of d k of None \<Rightarrow> Inl KeyError | Some v \<Rightarrow> Inr v)"

subsection \<open>pandas and Python library functions\<close>

text \<open>
  \<^verbatim>\<open>Series.unique()\<close>: the distinct values in the order of their first appearance
  (\<^const>\<open>remdups\<close> keeps the last occurrence of each value, hence the two reversals).
\<close>

definition series_unique :: "'a list \<Rightarrow> 'a list" where
  "series_unique xs = rev (remdups (rev xs))"

text \<open>
  \<^verbatim>\<open>Series.value_counts()\<close>: each distinct value with its number of occurrences, by
  descending count. pandas counts in a hash table that keeps the order of first appearance and
  then sorts by count; values with equal counts are kept here in that order (the sort is
  stable). No name is compared anywhere.
\<close>

definition value_counts :: "'a list \<Rightarrow> ('a \<times> nat) list" where
  "value_counts xs =
     sort_key (\<lambda>(v, n). - int n) (map (\<lambda>v. (v, count_list xs v)) (series_unique xs))"

text \<open>\<^verbatim>\<open>Series.min()\<close> and \<^verbatim>\<open>Series.max()\<close>: \<open>None\<close> stands for the NaN of an empty column.\<close>

definition series_min :: "int list \<Rightarrow> int option" where
  "series_min xs = (case xs of [] \<Rightarrow> None | x # ys \<Rightarrow> Some (fold min ys x))"

definition series_max :: "int list \<Rightarrow> int option" where
  "series_max xs = (case xs of [] \<Rightarrow> None | x # ys \<Rightarrow> Some (fold max ys x))"

text \<open>
  \<^verbatim>\<open>xs[i]\<close> on a list, for an index that is not negative: the element, or \<^verbatim>\<open>IndexError\<close>.
\<close>

definition list_getitem :: "'a list \<Rightarrow> nat \<Rightarrow> error + 'a" where
  "list_getitem xs i = (if i < length xs then Inr (xs ! i) else Inl IndexError)"

subsection \<open>The state of the dashboard\<close>

text \<open>
  The chart specification written to \<^verbatim>\<open>echarts_pane.object\<close>: the title text, the legend
  names, the x-axis data and, per series, its id (also its name) and its data. A data value
  \<open>None\<close> is a NaN. The constant parts of the configuration are left out.
\<close>

record chart =
  chart_title :: string
  legend_data :: "string list"
  xAxis :: "int list"
  series :: "(string \<times> rat option list) list"

text \<open>
  The parameters of \<^verbatim>\<open>MainDashboard\<close>, the attributes of their \<^verbatim>\<open>param\<close> objects
  (\<open>_objects\<close>, \<open>_bounds\<close>, \<open>_default\<close>), the instance attributes, the memo table of the
  \<^verbatim>\<open>lru_cache\<close> on \<^verbatim>\<open>get_countries_with_count\<close> (keyed by the instance, so it holds at
  most one entry for it and is never cleared), and the notifications sent so far.
  \<^verbatim>\<open>filter_pubdate\<close> is \<open>None\<close> until it is first set; a bound \<open>None\<close> inside it is a NaN.
\<close>

record dashboard =
  datasets :: "(string \<times> publication list) list"
  extraction_tool :: string
  raw_data :: "publication list"
  metrics_objects :: "string list"
  metrics :: string
  splitting_var_objects :: "string list"
  splitting_var :: string
  filter_pubdate_bounds :: "(int option \<times> int) option"
  filter_pubdate_default :: "(int option \<times> int option) option"
  filter_pubdate :: "(int option \<times> int option) option"
  filter_journal_objects :: "string list"
  filter_journal :: "string list"
  filter_affiliation_country_objects :: "string list"
  filter_affiliation_country :: "string list"
  countries_cache :: "(string \<times> nat) list option"
  notifications :: "string list"
  echarts_pane :: "chart option"
  echarts_loading :: bool

subsection \<open>Counting countries\<close>

text \<open>
  \<^verbatim>\<open>countries[c] = countries.get(c, 0) + 1\<close> on a dict, which keeps its keys in the order
  they were first inserted.
\<close>

definition bump :: "string \<Rightarrow> (string \<times> nat) list \<Rightarrow> (string \<times> nat) list" where
  "bump c countries =
     (if c \<in> fst ` set countries
      then map (\<lambda>(k, n). if k = c then (k, n + 1) else (k, n)) countries
      else countries @ [(c, 1)])"

definition count_row :: "string list option \<Rightarrow> (string \<times> nat) list \<Rightarrow> (string \<times> nat) list" where
  "count_row row countries =
     (case row of None \<Rightarrow> bump ''None'' countries | Some cs \<Rightarrow> fold bump cs countries)"

definition count_countries :: "publication list \<Rightarrow> (string \<times> nat) list" where
  "count_countries df = fold count_row (map affiliation_country df) []"

definition get_countries_with_count :: "dashboard \<Rightarrow> (string \<times> nat) list \<times> dashboard" where
  "get_countries_with_count s =
     (case countries_cache s of
        Some countries \<Rightarrow> (countries, s)
      | None \<Rightarrow>
          (let countries = count_countries (raw_data s)
           in (countries, s\<lparr>countries_cache := Some countries\<rparr>)))"

subsection \<open>The split dimension changes\<close>

text \<open>
  \<^verbatim>\<open>did_change_splitting_var\<close>. A result \<open>Inl (e, s)\<close> is the exception \<open>e\<close>, raised in
  the state \<open>s\<close> that the assignments before it have left. \<^verbatim>\<open>notif_msg\<close> is a local
  variable that only three of the four configured split dimensions assign: reading it unbound
  raises \<^verbatim>\<open>UnboundLocalError\<close>.
\<close>

definition did_change_splitting_var :: "dashboard \<Rightarrow> (error \<times> dashboard) + dashboard" where
  "did_change_splitting_var s =
     (let (s1, notif_msg1) =
            (if splitting_var s = ''journal''
             then (s\<lparr>filter_journal := map fst (take 10 (value_counts (map journal (raw_data s))))\<rparr>,
                   Some ''Splitting by journal. Top 10 journals selected by default.'')
             else (s\<lparr>filter_journal := filter_journal_objects s\<rparr>, None))
      in
      case
        (if splitting_var s1 = ''affiliation_country'' then
           (let (countries_with_count0, s2) = get_countries_with_count s1;
                countries_with_count = filter (\<lambda>(country, count). count > 10) countries_with_count0
            in case list_getitem (rev (sort (map snd countries_with_count))) 10 of
                 Inl e \<Rightarrow> Inl (e, s2)
               | Inr top_10_min \<Rightarrow>
                   (let selected_countries =
                          map fst (filter (\<lambda>(country, count). count \<ge> top_10_min) countries_with_count)
                    in Inr (s2\<lparr>filter_affiliation_country := selected_countries\<rparr>,
                            Some ''Splitting by affiliation country. Top 10 countries selected by default.'')))
         else
           Inr (s1\<lparr>filter_affiliation_country := filter_affiliation_country_objects s1\<rparr>, notif_msg1))
      of
        Inl e \<Rightarrow> Inl e
      | Inr (s3, notif_msg2) \<Rightarrow>
          (let notif_msg3 =
                 (if splitting_var s3 = ''None''
                  then Some ''No more splitting. Filters reset to default''
                  else notif_msg2)
           in case notif_msg3 of
                None \<Rightarrow> Inl (UnboundLocalError, s3)
              | Some msg \<Rightarrow> Inr (s3\<lparr>notifications := notifications s3 @ [msg]\<rparr>)))"

subsection \<open>The aggregation engine\<close>

text \<open>
  A cell of the column a frame is split by: a string (journal, funder institute) or a tuple
  of strings (the countries). Rows are grouped by equal cells and listed in ascending order of
  the keys; within one column all cells are of one kind, and the order below compares
  strings with strings and tuples with tuples as Python does (a string never meets a tuple).
\<close>

datatype cell = Str string | Tuple "string list"

instantiation cell :: linorder
begin

fun less_eq_cell :: "cell \<Rightarrow> cell \<Rightarrow> bool" where
  "less_eq_cell (Str a) (Str b) = (a \<le> b)"
| "less_eq_cell (Str a) (Tuple b) = True"
| "less_eq_cell (Tuple a) (Str b) = False"
| "less_eq_cell (Tuple a) (Tuple b) = (a \<le> b)"

definition less_cell :: "cell \<Rightarrow> cell \<Rightarrow> bool" where
  "less_cell x y = (x \<le> y \<and> \<not> y \<le> x)"

instance
proof
  fix x y z :: cell
  show "(x < y) = (x \<le> y \<and> \<not> y \<le> x)"
    by (simp add: less_cell_def)
  show "x \<le> x"
    by (cases x) auto
  show "x \<le> y \<Longrightarrow> y \<le> z \<Longrightarrow> x \<le> z"
    by (cases x; cases y; cases z) auto
  show "x \<le> y \<Longrightarrow> y \<le> x \<Longrightarrow> x = y"
    by (cases x; cases y) auto
  show "x \<le> y \<or> y \<le> x"
    by (cases x; cases y) auto
qed

end

text \<open>A loop that collects one result per element and stops at the first exception.\<close>

fun mapM :: "('a \<Rightarrow> error + 'b) \<Rightarrow> 'a list \<Rightarrow> error + 'b list" where
  "mapM f [] = Inr []"
| "mapM f (x # xs) =
     (case f x of
        Inl e \<Rightarrow> Inl e
      | Inr y \<Rightarrow> (case mapM f xs of Inl e \<Rightarrow> Inl e | Inr ys \<Rightarrow> Inr (y # ys)))"

text \<open>
  The mean of a column; \<open>None\<close> is the NaN of an empty column. Values are rationals: the
  rounding of the floating-point arithmetic is not modelled.
\<close>

definition mean :: "rat list \<Rightarrow> rat option" where
  "mean xs = (if xs = [] then None else Some (sum_list xs / of_nat (length xs)))"

definition aggregation_formulas :: "(string \<times> (bool list \<Rightarrow> rat option)) list" where
  "aggregation_formulas =
     [(''percent'', \<lambda>x. map_option (\<lambda>m. m * 100) (mean (map of_bool x))),
      (''count_true'', \<lambda>x. Some (of_nat (length (filter (\<lambda>b. b = True) x)))),
      (''count'', \<lambda>x. Some (of_nat (length x))),
      (''mean'', \<lambda>x. mean (map of_bool x))]"

text \<open>The columns of the dataset that an aggregation can name.\<close>

definition bool_columns :: "(string \<times> (publication \<Rightarrow> bool)) list" where
  "bool_columns = [(''is_data_pred'', is_data_pred), (''is_code_pred'', is_code_pred)]"

text \<open>
  The dict \<^verbatim>\<open>aggretations\<close> of \<^verbatim>\<open>filtered_grouped_data\<close>: for each field and each of its
  aggregations, the output column \<^verbatim>\<open>{agg}_{field}\<close> with the field and the formula.
\<close>

definition aggretations :: "error + (string \<times> string \<times> (bool list \<Rightarrow> rat option)) list" where
  "aggretations =
     mapM (\<lambda>(field, agg).
             case getitem aggregation_formulas agg of
               Inl e \<Rightarrow> Inl e
             | Inr formula \<Rightarrow> Inr (agg @ ''_'' @ field, field, formula))
       (concat (map (\<lambda>(field, aggs). map (\<lambda>agg. (field, agg)) aggs) dims_aggregations))"

text \<open>
  The column that \<^verbatim>\<open>groupby\<close> takes next to \<^verbatim>\<open>year\<close>. A name that is no column of the
  dataset is a \<^verbatim>\<open>KeyError\<close>; \<^verbatim>\<open>year\<close> a second time groups, and then \<^verbatim>\<open>reset_index\<close>
  cannot insert the column \<^verbatim>\<open>year\<close> twice (\<^verbatim>\<open>ValueError\<close>).
\<close>

definition split_column :: "string \<Rightarrow> error + (publication \<Rightarrow> cell option)" where
  "split_column name =
     (if name = ''journal'' then Inr (\<lambda>r. Some (Str (journal r)))
      else if name = ''affiliation_country'' then Inr (\<lambda>r. map_option Tuple (affiliation_country r))
      else if name = ''fund_pmc_institute'' then Inr (\<lambda>r. map_option Str (fund_pmc_institute r))
      else if name = ''year'' then Inl ValueError
      else Inl KeyError)"

text \<open>
  One row of the aggregated frame: the year, the cell of the split column (\<open>None\<close> when the
  frame is grouped by year alone) and the aggregated columns by name.
\<close>

record agg_row =
  row_year :: int
  row_split :: "cell option"
  row_values :: "(string \<times> rat option) list"

text \<open>
  The group a record falls in. \<^verbatim>\<open>groupby\<close> drops a record whose key is missing
  (\<^verbatim>\<open>dropna=True\<close>).
\<close>

definition group_key ::
  "(publication \<Rightarrow> cell option) option \<Rightarrow> publication \<Rightarrow> (int \<times> cell option) option" where
  "group_key split r =
     (case split of
        None \<Rightarrow> Some (year r, None)
      | Some col \<Rightarrow> (case col r of None \<Rightarrow> None | Some c \<Rightarrow> Some (year r, Some c)))"

text \<open>
  \<^verbatim>\<open>groupby(groupers).agg(**aggretations).reset_index()\<close>: one row per key that occurs, in
  ascending order of the keys (\<^verbatim>\<open>sort=True\<close>), each column computed from the records of
  the group.
\<close>

definition groupby_agg ::
  "(publication \<Rightarrow> cell option) option \<Rightarrow>
   (string \<times> (publication \<Rightarrow> bool) \<times> (bool list \<Rightarrow> rat option)) list \<Rightarrow>
   publication list \<Rightarrow> agg_row list" where
  "groupby_agg split aggs df =
     map (\<lambda>k. \<lparr>row_year = fst k, row_split = snd k,
               row_values =
                 map (\<lambda>(name, col, formula).
                        (name, formula (map col (filter (\<lambda>r. group_key split r = Some k) df))))
                   aggs\<rparr>)
       (sort (remdups (List.map_filter (group_key split) df)))"

text \<open>
  Python's \<^verbatim>\<open>!=\<close> between the values the journal test compares: the number
  \<^verbatim>\<open>len(self.filter_journal)\<close> and the list \<^verbatim>\<open>self.param.filter_journal.objects\<close>
  (the objects of a selector are read as a list). Values of different types are unequal.
\<close>

datatype pyobj = PyInt nat | PyList "string list"

definition py_ne :: "pyobj \<Rightarrow> pyobj \<Rightarrow> bool" where
  "py_ne a b = (a \<noteq> b)"

text \<open>The conditions that the first \<^verbatim>\<open>if\<close> appends to \<^verbatim>\<open>filters\<close>.\<close>

definition journal_filters :: "dashboard \<Rightarrow> (publication \<Rightarrow> bool) list" where
  "journal_filters s =
     (if py_ne (PyInt (length (filter_journal s))) (PyList (filter_journal_objects s))
      then [\<lambda>r. journal r \<in> set (filter_journal s)]
      else [])"

text \<open>
  The conditions of the second \<^verbatim>\<open>if\<close>. A NaN bound is written into the query as the name
  \<^verbatim>\<open>nan\<close>, which the query cannot resolve.
\<close>

definition pubdate_filters :: "dashboard \<Rightarrow> error + (publication \<Rightarrow> bool) list" where
  "pubdate_filters s =
     (case filter_pubdate s of
        None \<Rightarrow> Inr []
      | Some (Some lo, Some hi) \<Rightarrow> Inr [\<lambda>r. year r \<ge> lo, \<lambda>r. year r \<le> hi]
      | Some _ \<Rightarrow> Inl UndefinedVariableError)"

text \<open>\<^verbatim>\<open>DataFrame.query\<close> with the conditions joined by \<^verbatim>\<open>and\<close>.\<close>

definition query :: "(publication \<Rightarrow> bool) list \<Rightarrow> publication list \<Rightarrow> publication list" where
  "query filters df = filter (\<lambda>r. list_all (\<lambda>p. p r) filters) df"

definition country_filter :: "string list \<Rightarrow> string list option \<Rightarrow> bool" where
  "country_filter selected cell =
     (case cell of
        None \<Rightarrow> ''None'' \<in> set selected
      | Some cs \<Rightarrow> list_ex (\<lambda>c. c \<in> set selected) cs)"

text \<open>The frame \<^verbatim>\<open>filtered_df\<close> that is grouped.\<close>

definition filtered_df :: "dashboard \<Rightarrow> error + publication list" where
  "filtered_df s =
     (case pubdate_filters s of
        Inl e \<Rightarrow> Inl e
      | Inr pubdate \<Rightarrow>
          (let filters = journal_filters s @ pubdate;
               df1 = (if filters \<noteq> [] then query filters (raw_data s) else raw_data s)
           in Inr (if length (filter_affiliation_country s)
                      \<noteq> length (filter_affiliation_country_objects s)
                   then filter (\<lambda>r. country_filter (filter_affiliation_country s)
                                      (affiliation_country r)) df1
                   else df1)))"

text \<open>
  The list \<^verbatim>\<open>groupers\<close> after \<^verbatim>\<open>year\<close>: nothing when the split dimension is
  \<^verbatim>\<open>"None"\<close>, its column otherwise.
\<close>

definition groupers :: "string \<Rightarrow> error + (publication \<Rightarrow> cell option) option" where
  "groupers v =
     (if v \<noteq> ''None''
      then (case split_column v of Inl e \<Rightarrow> Inl e | Inr col \<Rightarrow> Inr (Some col))
      else Inr None)"

text \<open>\<^verbatim>\<open>agg\<close> finds the column of each aggregation in the frame.\<close>

definition resolve_columns ::
  "(string \<times> string \<times> (bool list \<Rightarrow> rat option)) list \<Rightarrow>
   error + (string \<times> (publication \<Rightarrow> bool) \<times> (bool list \<Rightarrow> rat option)) list" where
  "resolve_columns aggs =
     mapM (\<lambda>(name, field, formula).
             case getitem bool_columns field of
               Inl e \<Rightarrow> Inl e
             | Inr col \<Rightarrow> Inr (name, col, formula)) aggs"

definition filtered_grouped_data :: "dashboard \<Rightarrow> error + agg_row list" where
  "filtered_grouped_data s =
     (case filtered_df s of
        Inl e \<Rightarrow> Inl e
      | Inr df \<Rightarrow>
          (case aggretations of
             Inl e \<Rightarrow> Inl e
           | Inr aggs \<Rightarrow>
               (case groupers (splitting_var s) of
                  Inl e \<Rightarrow> Inl e
                | Inr split \<Rightarrow>
                    (case resolve_columns aggs of
                       Inl e \<Rightarrow> Inl e
                     | Inr resolved \<Rightarrow> Inr (groupby_agg split resolved df)))))"

subsection \<open>The chart series builder\<close>

text \<open>
  \<^verbatim>\<open>df[name]\<close> for an aggregated column of the frame: its values down the rows, or
  \<^verbatim>\<open>KeyError\<close> when the frame has no such column (the frame has the columns of
  \<^verbatim>\<open>aggretations\<close>, whatever its rows).
\<close>

definition frame_column :: "string \<Rightarrow> agg_row list \<Rightarrow> error + rat option list" where
  "frame_column name df =
     (case aggretations of
        Inl e \<Rightarrow> Inl e
      | Inr aggs \<Rightarrow>
          if name \<in> fst ` set aggs then mapM (\<lambda>row. getitem (row_values row) name) df
          else Inl KeyError)"

text \<open>The mean that pandas takes of a column: over the values that are not NaN.\<close>

definition mean_skipna :: "rat option list \<Rightarrow> rat option" where
  "mean_skipna vs = mean (List.map_filter (\<lambda>v. v) vs)"

text \<open>
  The data of the series of one selected item: the rows of \<^verbatim>\<open>df\<close> whose split cell
  satisfies \<^verbatim>\<open>splitting_var_query\<close>, grouped by year again, the metric averaged per year.
  The split column is a column of the frame whenever this code is reached.
\<close>

definition sub_series ::
  "string \<Rightarrow> (cell \<Rightarrow> string \<Rightarrow> bool) \<Rightarrow> agg_row list \<Rightarrow> string \<Rightarrow> error + rat option list" where
  "sub_series raw_metric splitting_var_query df selected_item =
     (let sub = filter (\<lambda>row. case row_split row of
                                 None \<Rightarrow> False
                               | Some c \<Rightarrow> splitting_var_query c selected_item) df
      in case frame_column raw_metric sub of
           Inl e \<Rightarrow> Inl e
         | Inr _ \<Rightarrow>
             mapM (\<lambda>y. case frame_column raw_metric (filter (\<lambda>row. row_year row = y) sub) of
                          Inl e \<Rightarrow> Inl e
                        | Inr vs \<Rightarrow> Inr (mean_skipna vs))
               (sort (remdups (map row_year sub))))"

text \<open>
  The two tests \<^verbatim>\<open>selected_item in cell\<close> (the cell a tuple of countries) and
  \<^verbatim>\<open>cell == selected_item\<close>.
\<close>

definition item_in_cell :: "cell \<Rightarrow> string \<Rightarrow> bool" where
  "item_in_cell c selected_item =
     (case c of Tuple cs \<Rightarrow> selected_item \<in> set cs | Str x \<Rightarrow> False)"

definition cell_eq_item :: "cell \<Rightarrow> string \<Rightarrow> bool" where
  "cell_eq_item c selected_item = (c = Str selected_item)"

text \<open>
  The \<^verbatim>\<open>if\<close> of \<^verbatim>\<open>updated_echart_plot\<close> that builds \<^verbatim>\<open>series\<close> (and, with the same
  names, \<^verbatim>\<open>legend_data\<close>): one series under the title of the metric when the frame is not
  split, one series per selected item in ascending order otherwise. The class has no attribute
  \<^verbatim>\<open>filter_fund_pmc_institute\<close>: reading it raises \<^verbatim>\<open>AttributeError\<close>.
\<close>

definition build_series ::
  "dashboard \<Rightarrow> string \<Rightarrow> agg_row list \<Rightarrow> error + (string \<times> rat option list) list" where
  "build_series s raw_metric df =
     (if splitting_var s = ''None'' then
        (case frame_column raw_metric df of
           Inl e \<Rightarrow> Inl e
         | Inr d \<Rightarrow> Inr [(metrics s, d)])
      else
        (case
           (if splitting_var s = ''affiliation_country''
            then Inr (filter_affiliation_country s, item_in_cell)
            else if splitting_var s = ''fund_pmc_institute''
            then Inl AttributeError
            else Inr (filter_journal s, cell_eq_item))
         of
           Inl e \<Rightarrow> Inl e
         | Inr (splitting_var_filter, splitting_var_query) \<Rightarrow>
             mapM (\<lambda>selected_item.
                     case sub_series raw_metric splitting_var_query df selected_item of
                       Inl e \<Rightarrow> Inl e
                     | Inr d \<Rightarrow> Inr (selected_item, d))
               (sort splitting_var_filter)))"

text \<open>
  \<^verbatim>\<open>updated_echart_plot\<close>. \<^verbatim>\<open>int\<close> of a NaN bound raises \<^verbatim>\<open>ValueError\<close>.
\<close>

definition updated_echart_plot :: "dashboard \<Rightarrow> (error \<times> dashboard) + dashboard" where
  "updated_echart_plot s =
     (case filter_pubdate s of
        None \<Rightarrow> Inr s
      | Some (lo, hi) \<Rightarrow>
          (let s1 = s\<lparr>echarts_loading := True\<rparr> in
           case filtered_grouped_data s1 of
             Inl e \<Rightarrow> Inl (e, s1)
           | Inr df \<Rightarrow>
               (case getitem metrics_by_title (metrics s1) of
                  Inl e \<Rightarrow> Inl (e, s1)
                | Inr raw_metric \<Rightarrow>
                    (let x_axis = series_unique (map row_year df) in
                     case build_series s1 raw_metric df of
                       Inl e \<Rightarrow> Inl (e, s1)
                     | Inr new_series \<Rightarrow>
                         (case (lo, hi) of
                            (Some l, Some h) \<Rightarrow>
                              Inr (s1\<lparr>echarts_pane :=
                                         Some \<lparr>chart_title =
                                                 metrics s1 @ '' by '' @ splitting_var s1 @ '' (''
                                                 @ string_of_int l @ ''-'' @ string_of_int h @ '')'',
                                               legend_data = map fst new_series,
                                               xAxis = x_axis,
                                               series = new_series\<rparr>,
                                       echarts_loading := False\<rparr>)
                          | _ \<Rightarrow> Inl (ValueError, s1))))))"

subsection \<open>Assignments to watched parameters\<close>

text \<open>
  The methods decorated with \<^verbatim>\<open>@pn.depends(..., watch=True)\<close> run when a parameter they
  name is assigned a value that differs from its old one, in the order the class defines
  them, inside the assignment; an exception of a watcher leaves the assignment.
  \<^verbatim>\<open>updated_echart_plot\<close> watches \<^verbatim>\<open>splitting_var\<close>, \<^verbatim>\<open>filter_pubdate\<close> and
  \<^verbatim>\<open>metrics\<close>; \<^verbatim>\<open>did_change_splitting_var\<close> watches \<^verbatim>\<open>splitting_var\<close>. A NaN differs
  from every value, itself included. The validation of a value against the objects or bounds
  of its parameter is the library's and is not modelled.
\<close>

definition set_metrics :: "string \<Rightarrow> dashboard \<Rightarrow> (error \<times> dashboard) + dashboard" where
  "set_metrics v s = (if metrics s = v then Inr s else updated_echart_plot (s\<lparr>metrics := v\<rparr>))"

definition pubdate_is_equal ::
  "(int option \<times> int option) option \<Rightarrow> int option \<times> int option \<Rightarrow> bool" where
  "pubdate_is_equal old new =
     (case (old, new) of
        (Some (Some a, Some b), (Some c, Some d)) \<Rightarrow> a = c \<and> b = d
      | _ \<Rightarrow> False)"

definition set_filter_pubdate ::
  "int option \<times> int option \<Rightarrow> dashboard \<Rightarrow> (error \<times> dashboard) + dashboard" where
  "set_filter_pubdate v s =
     (if pubdate_is_equal (filter_pubdate s) v then Inr (s\<lparr>filter_pubdate := Some v\<rparr>)
      else updated_echart_plot (s\<lparr>filter_pubdate := Some v\<rparr>))"

definition set_splitting_var :: "string \<Rightarrow> dashboard \<Rightarrow> (error \<times> dashboard) + dashboard" where
  "set_splitting_var v s =
     (if splitting_var s = v then Inr s
      else (case did_change_splitting_var (s\<lparr>splitting_var := v\<rparr>) of
              Inl e \<Rightarrow> Inl e
            | Inr s' \<Rightarrow> updated_echart_plot s'))"

subsection \<open>The extraction tool changes\<close>

text \<open>The titles of the metrics of a tool: the double loop that fills \<^verbatim>\<open>new_metrics\<close>.\<close>

definition new_metrics :: "string list \<Rightarrow> error + string list" where
  "new_metrics new_extraction_tools_metrics =
     (case mapM (\<lambda>m. case getitem dims_aggregations m of
                        Inl e \<Rightarrow> Inl e
                      | Inr aggs \<Rightarrow> mapM (\<lambda>agg. getitem metrics_titles (agg @ ''_'' @ m)) aggs)
             new_extraction_tools_metrics of
        Inl e \<Rightarrow> Inl e
      | Inr titles \<Rightarrow> Inr (concat titles))"

text \<open>
  \<^verbatim>\<open>sorted(countries_with_count.keys(), key=country_sorter, reverse=True)\<close>: by
  descending count, countries of equal count in the order of the dict (Python's sort is
  stable, also when reversed).
\<close>

definition countries_by_count :: "(string \<times> nat) list \<Rightarrow> string list" where
  "countries_by_count countries_with_count =
     map fst (sort_key (\<lambda>(c, n). - int n) countries_with_count)"

text \<open>
  \<^verbatim>\<open>did_change_extraction_tool\<close>; \<open>now_year\<close> is \<^verbatim>\<open>datetime.now().year\<close>.
\<close>

definition did_change_extraction_tool :: "int \<Rightarrow> dashboard \<Rightarrow> (error \<times> dashboard) + dashboard" where
  "did_change_extraction_tool now_year s =
     (case getitem (datasets s) (extraction_tool s) of
        Inl e \<Rightarrow> Inl (e, s)
      | Inr df \<Rightarrow>
          (let s1 = s\<lparr>raw_data := df\<rparr> in
           case getitem extraction_tools_params (extraction_tool s1) of
             Inl e \<Rightarrow> Inl (e, s1)
           | Inr (new_extraction_tools_metrics, new_extraction_tools_splitting_vars) \<Rightarrow>
               (case new_metrics new_extraction_tools_metrics of
                  Inl e \<Rightarrow> Inl (e, s1)
                | Inr titles \<Rightarrow>
                    (let s2 = s1\<lparr>metrics_objects := titles\<rparr> in
                     case list_getitem (metrics_objects s2) 0 of
                       Inl e \<Rightarrow> Inl (e, s2)
                     | Inr m \<Rightarrow>
                         (case set_metrics m s2 of
                            Inl e \<Rightarrow> Inl e
                          | Inr s3 \<Rightarrow>
                              (let year_min = series_min (map year (raw_data s3));
                                   year_max = series_max (map year (raw_data s3));
                                   s4 = s3\<lparr>splitting_var_objects := new_extraction_tools_splitting_vars,
                                           filter_pubdate_bounds := Some (year_min, now_year),
                                           filter_pubdate_default := Some (year_min, year_max)\<rparr>
                               in case set_filter_pubdate (year_min, year_max) s4 of
                                    Inl e \<Rightarrow> Inl e
                                  | Inr s5 \<Rightarrow>
                                      (let s6 = s5\<lparr>filter_journal_objects :=
                                                      series_unique (map journal (raw_data s5))\<rparr>;
                                           (countries_with_count, s7) = get_countries_with_count s6;
                                           s8 = s7\<lparr>filter_affiliation_country_objects :=
                                                      countries_by_count countries_with_count\<rparr>
                                       in case list_getitem (splitting_var_objects s8) 0 of
                                            Inl e \<Rightarrow> Inl (e, s8)
                                          | Inr v \<Rightarrow> set_splitting_var v s8)))))))"

subsection \<open>A new dashboard\<close>

text \<open>
  The state after \<^verbatim>\<open>super().__init__\<close> in \<^verbatim>\<open>MainDashboard.__init__\<close>: every parameter
  at the default its declaration gives, \<^verbatim>\<open>datasets\<close> as passed, the tool set to the first
  dataset's key and nothing computed yet (the default \<^verbatim>\<open>[]\<close> of \<^verbatim>\<open>metrics\<close> is no
  title, as the empty string is none).
\<close>

definition new_dashboard :: "(string \<times> publication list) list \<Rightarrow> string \<Rightarrow> dashboard" where
  "new_dashboard ds tool =
     \<lparr>datasets = ds, extraction_tool = tool, raw_data = [],
      metrics_objects = [], metrics = [],
      splitting_var_objects = [''year'', ''fund_pmc_institute''], splitting_var = ''year'',
      filter_pubdate_bounds = None, filter_pubdate_default = None, filter_pubdate = None,
      filter_journal_objects = [], filter_journal = [],
      filter_affiliation_country_objects = [], filter_affiliation_country = [],
      countries_cache = None, notifications = [],
      echarts_pane = None, echarts_loading = False\<rparr>"

subsection \<open>Example datasets\<close>

text \<open>
  A row as \<^verbatim>\<open>load_data\<close> leaves it: the countries a tuple, no funder institute.
\<close>

definition pub :: "int \<Rightarrow> string \<Rightarrow> string list \<Rightarrow> bool \<Rightarrow> bool \<Rightarrow> publication" where
  "pub y j cs d c =
     \<lparr>year = y, journal = j, affiliation_country = Some cs, fund_pmc_institute = None,
      is_data_pred = d, is_code_pred = c\<rparr>"

text \<open>
  A new dashboard on one dataset under the tool \<^verbatim>\<open>RTransparent\<close>, with \<^verbatim>\<open>raw_data\<close>
  read and nothing else computed.
\<close>

definition dashboard_on :: "publication list \<Rightarrow> dashboard" where
  "dashboard_on df = (new_dashboard [(''RTransparent'', df)] ''RTransparent'')\<lparr>raw_data := df\<rparr>"

text \<open>Eleven journals with one record each, first seen in descending order of their names.\<close>

definition eleven_journals :: "publication list" where
  "eleven_journals =
     map (\<lambda>j. pub 2020 j [''US''] True False)
       [''K'', ''J'', ''I'', ''H'', ''G'', ''F'', ''E'', ''D'', ''C'', ''B'', ''A'']"

text \<open>
  Eleven countries that occur 21, 20, ..., 11 times: the record built from \<open>k\<close> names the
  first \<open>k\<close> countries.
\<close>

definition country_names :: "string list" where
  "country_names =
     [''AA'', ''BB'', ''CC'', ''DD'', ''EE'', ''FF'', ''GG'', ''HH'', ''II'', ''JJ'', ''KK'']"

definition eleven_countries :: "publication list" where
  "eleven_countries =
     map (\<lambda>k. pub 2020 ''J'' (take k country_names) True False)
       [11, 11, 11, 11, 11, 11, 11, 11, 11, 11, 11, 10, 9, 8, 7, 6, 5, 4, 3, 2, 1]"

text \<open>
  A dashboard whose tool has been set to a dataset: the state that
  \<^verbatim>\<open>did_change_extraction_tool\<close> ends in, in the year 2024, when the split dimension was
  \<^verbatim>\<open>journal\<close> before.
\<close>

definition loaded :: "publication list \<Rightarrow> dashboard" where
  "loaded df =
     (case did_change_extraction_tool 2024
             ((new_dashboard [(''RTransparent'', df)] ''RTransparent'')\<lparr>splitting_var := ''journal''\<rparr>) of
        Inl (e, s) \<Rightarrow> s
      | Inr s \<Rightarrow> s)"

text \<open>The scenario of the specification.\<close>

definition three_records :: "publication list" where
  "three_records =
     [pub 2020 ''J1'' [''US''] True False,
      pub 2020 ''J1'' [''US''] False False,
      pub 2021 ''J2'' [''FR''] True True]"

text \<open>
  The scenario loaded, then split by journal with one journal and one country selected by
  hand and the notifications cleared.
\<close>

definition split_by_journal :: dashboard where
  "split_by_journal =
     (loaded three_records)\<lparr>splitting_var := ''journal'', filter_journal := [''J2''],
        filter_affiliation_country := [''FR''], notifications := []\<rparr>"

subsection \<open>The selection-title formatter\<close>

text \<open>
  \<^verbatim>\<open>new_picker_title(self, entity, picker, values, options)\<close> reads only the lengths of
  \<^verbatim>\<open>picker.value\<close> and \<^verbatim>\<open>picker.options\<close>; the arguments \<^verbatim>\<open>values\<close> and
  \<^verbatim>\<open>options\<close> are unused. The picker is given by its two lists.
\<close>

definition new_picker_title :: "string \<Rightarrow> 'a list \<Rightarrow> 'b list \<Rightarrow> string" where
  "new_picker_title entity picker_value picker_options =
     (let value_count = length picker_value;
          options_count = length picker_options
      in if value_count = options_count then
           ''All '' @ entity @ '' ('' @ string_of_nat value_count @ '')''
         else if value_count = 0 then
           ''No '' @ entity @ '' (0 out of '' @ string_of_nat options_count @ '')''
         else
           string_of_nat value_count @ '' '' @ entity @ '' out of '' @ string_of_nat options_count)"

section \<open>Properties\<close>

subsection \<open>Decimal rendering\<close>

lemma string_of_nat_small: "n < 10 \<Longrightarrow> string_of_nat n = [''0123456789'' ! n]"
  by (simp add: string_of_nat.simps [of n])

lemma string_of_nat_large:
  "\<not> n < 10 \<Longrightarrow> string_of_nat n = string_of_nat (n div 10) @ [''0123456789'' ! (n mod 10)]"
  by (subst string_of_nat.simps) simp

lemma string_of_nat_0: "string_of_nat 0 = ''0''"
  by (simp add: string_of_nat_small)

lemma string_of_nat_3: "string_of_nat 3 = ''3''"
  by (simp add: string_of_nat_small)

lemma string_of_nat_10: "string_of_nat 10 = ''10''"
  by (simp add: string_of_nat_large string_of_nat_small)

subsection \<open>The selection-title formatter\<close>

text \<open>
  Claim C10. The formatter has three branches, tried in the order all selected, none
  selected, partial: with \<open>k\<close> selected values out of \<open>n\<close> options it returns
  \<^verbatim>\<open>All {entity} ({n})\<close> when \<open>k = n\<close>, \<^verbatim>\<open>No {entity} (0 out of {n})\<close> when \<open>k = 0\<close> and
  \<open>n\<close> is not \<open>0\<close>, and \<^verbatim>\<open>{k} {entity} out of {n}\<close> otherwise, for every entity name;
  and the three examples with \<^verbatim>\<open>journals\<close> and 10 options come out as the specification
  writes them.
\<close>

theorem new_picker_title_branches:
  "new_picker_title entity vs os =
     (if length vs = length os then ''All '' @ entity @ '' ('' @ string_of_nat (length os) @ '')''
      else if length vs = 0 then ''No '' @ entity @ '' (0 out of '' @ string_of_nat (length os) @ '')''
      else string_of_nat (length vs) @ '' '' @ entity @ '' out of '' @ string_of_nat (length os))
   \<and> new_picker_title ''journals'' (replicate 3 j) (replicate 10 j) = ''3 journals out of 10''
   \<and> new_picker_title ''journals'' (replicate 10 j) (replicate 10 j) = ''All journals (10)''
   \<and> new_picker_title ''journals'' (replicate 0 j) (replicate 10 j) = ''No journals (0 out of 10)''"
  by (simp add: new_picker_title_def Let_def string_of_nat_3 string_of_nat_10)

subsection \<open>Library functions\<close>

lemma set_series_unique: "set (series_unique xs) = set xs"
  by (simp add: series_unique_def)

lemma distinct_series_unique: "distinct (series_unique xs)"
  by (simp add: series_unique_def)

lemma length_series_unique: "length (series_unique xs) = card (set xs)"
  using distinct_card [OF distinct_series_unique, of xs] by (simp add: set_series_unique)

lemma set_value_counts:
  "set (value_counts xs) = (\<lambda>v. (v, count_list xs v)) ` set xs"
  by (simp add: value_counts_def set_series_unique)

lemma set_map_fst_value_counts: "set (map fst (value_counts xs)) = set xs"
  by (simp add: set_value_counts image_image)

lemma distinct_map_fst_value_counts: "distinct (map fst (value_counts xs))"
proof -
  have "distinct (value_counts xs)"
    by (simp add: value_counts_def distinct_map distinct_series_unique inj_on_def)
  moreover have "inj_on fst (set (value_counts xs))"
    by (auto simp: set_value_counts inj_on_def)
  ultimately show ?thesis
    by (simp add: distinct_map)
qed

lemma length_value_counts: "length (value_counts xs) = card (set xs)"
  by (simp add: value_counts_def length_series_unique)

lemma value_counts_snd:
  assumes "p \<in> set (value_counts xs)"
  shows "snd p = count_list xs (fst p)"
  using assms by (auto simp: value_counts_def)

lemma sorted_value_counts:
  "sorted (map (\<lambda>p. - int (snd p)) (value_counts xs))"
proof -
  have "(\<lambda>p::'a \<times> nat. - int (snd p)) = (\<lambda>(v, n). - int n)"
    by (simp add: fun_eq_iff)
  then show ?thesis
    by (simp add: value_counts_def)
qed

text \<open>An entry among the first \<open>n\<close> of \<open>value_counts\<close> occurs at least as often as any other value.\<close>

lemma value_counts_take_ge_rest:
  assumes j: "j \<in> set (take n (map fst (value_counts xs)))"
      and j': "j' \<in> set xs" "j' \<notin> set (take n (map fst (value_counts xs)))"
  shows "count_list xs j' \<le> count_list xs j"
proof -
  let ?vc = "value_counts xs"
  from j obtain i where i: "i < n" "i < length ?vc" "fst (?vc ! i) = j"
    by (auto simp: in_set_conv_nth)
  from j'(1) have "j' \<in> set (map fst ?vc)"
    by (simp only: set_map_fst_value_counts)
  then obtain k where k: "k < length ?vc" "fst (?vc ! k) = j'"
    by (auto simp: in_set_conv_nth)
  have "\<not> k < n"
  proof
    assume "k < n"
    with k have "j' \<in> set (take n (map fst ?vc))"
      by (auto simp: in_set_conv_nth intro!: exI [of _ k])
    with j'(2) show False by simp
  qed
  with i have ik: "i \<le> k" by simp
  have "map (\<lambda>p. - int (snd p)) ?vc ! i \<le> map (\<lambda>p. - int (snd p)) ?vc ! k"
    using sorted_value_counts [of xs] ik k(1) by (simp add: sorted_iff_nth_mono del: nth_map)
  then have "snd (?vc ! k) \<le> snd (?vc ! i)"
    using i k by simp
  moreover have "snd (?vc ! k) = count_list xs j'"
    using value_counts_snd [of "?vc ! k" xs] k by simp
  moreover have "snd (?vc ! i) = count_list xs j"
    using value_counts_snd [of "?vc ! i" xs] i by simp
  ultimately show ?thesis by simp
qed

text \<open>Values of equal count stand in \<open>value_counts\<close> in the order of their first appearance.\<close>

lemma value_counts_ties:
  "map fst (filter (\<lambda>p. snd p = k) (value_counts xs))
     = filter (\<lambda>v. count_list xs v = k) (series_unique xs)"
proof -
  have eq: "(\<lambda>p::'a \<times> nat. snd p = k) = (\<lambda>y. (case y of (v, n) \<Rightarrow> - int n) = - int k)"
    by (auto simp: fun_eq_iff)
  have "filter (\<lambda>p. snd p = k) (value_counts xs)
          = filter (\<lambda>p. snd p = k) (map (\<lambda>v. (v, count_list xs v)) (series_unique xs))"
    unfolding value_counts_def eq by (rule sort_key_stable)
  then show ?thesis
    by (simp add: filter_map comp_def)
qed

subsection \<open>The split dimension changes\<close>

lemma fst_get_countries_with_count:
  "fst (get_countries_with_count s) =
     (case countries_cache s of Some c \<Rightarrow> c | None \<Rightarrow> count_countries (raw_data s))"
  by (simp add: get_countries_with_count_def Let_def split: option.splits)

lemma snd_get_countries_with_count:
  "snd (get_countries_with_count s) = s\<lparr>countries_cache := Some (fst (get_countries_with_count s))\<rparr>"
  by (simp add: get_countries_with_count_def Let_def split: option.splits)

lemma did_change_splitting_var_none:
  assumes "splitting_var s = ''None''"
  shows "did_change_splitting_var s =
     Inr (s\<lparr>filter_journal := filter_journal_objects s,
            filter_affiliation_country := filter_affiliation_country_objects s,
            notifications := notifications s @ [''No more splitting. Filters reset to default'']\<rparr>)"
  using assms by (simp add: did_change_splitting_var_def)

lemma did_change_splitting_var_journal:
  assumes "splitting_var s = ''journal''"
  shows "did_change_splitting_var s =
     Inr (s\<lparr>filter_journal := map fst (take 10 (value_counts (map journal (raw_data s)))),
            filter_affiliation_country := filter_affiliation_country_objects s,
            notifications := notifications s @
              [''Splitting by journal. Top 10 journals selected by default.'']\<rparr>)"
  using assms by (simp add: did_change_splitting_var_def)

lemma did_change_splitting_var_country:
  assumes "splitting_var s = ''affiliation_country''"
  shows "did_change_splitting_var s =
     (let s1 = s\<lparr>filter_journal := filter_journal_objects s\<rparr>;
          cands = filter (\<lambda>(c, n). n > 10) (fst (get_countries_with_count s1));
          s2 = snd (get_countries_with_count s1)
      in if length cands < 11 then Inl (IndexError, s2)
         else Inr (s2\<lparr>filter_affiliation_country :=
                        map fst (filter (\<lambda>(c, n). n \<ge> rev (sort (map snd cands)) ! 10) cands),
                      notifications := notifications s @
                        [''Splitting by affiliation country. Top 10 countries selected by default.'']\<rparr>))"
proof -
  obtain c s2 where g: "get_countries_with_count (s\<lparr>filter_journal := filter_journal_objects s\<rparr>) = (c, s2)"
    by (cases "get_countries_with_count (s\<lparr>filter_journal := filter_journal_objects s\<rparr>)")
  have sv: "splitting_var s2 = ''affiliation_country''" and n: "notifications s2 = notifications s"
    using g assms by (auto simp: get_countries_with_count_def Let_def split: option.splits)
  show ?thesis
    using assms g sv n
    by (simp add: did_change_splitting_var_def Let_def list_getitem_def not_less)
qed

text \<open>
  Claim C8. When the split dimension is set to \<^verbatim>\<open>None\<close>, \<^verbatim>\<open>did_change_splitting_var\<close>
  resets the journal selection to all journal objects and the country selection to all
  country objects (both \<^verbatim>\<open>else\<close> branches run) and sends exactly one notification,
  \<^verbatim>\<open>No more splitting. Filters reset to default\<close>; and when the split dimension was
  \<^verbatim>\<open>journal\<close>, assigning \<^verbatim>\<open>None\<close> runs that method on the new value and then refreshes the
  chart from the reset state.
\<close>

theorem switch_to_none_resets_filters:
  "did_change_splitting_var (s\<lparr>splitting_var := ''None''\<rparr>) =
     Inr (s\<lparr>splitting_var := ''None'',
            filter_journal := filter_journal_objects s,
            filter_affiliation_country := filter_affiliation_country_objects s,
            notifications := notifications s @ [''No more splitting. Filters reset to default'']\<rparr>)
   \<and> (splitting_var s = ''journal'' \<longrightarrow>
        set_splitting_var ''None'' s =
          updated_echart_plot
            (s\<lparr>splitting_var := ''None'',
               filter_journal := filter_journal_objects s,
               filter_affiliation_country := filter_affiliation_country_objects s,
               notifications := notifications s @ [''No more splitting. Filters reset to default'']\<rparr>))"
  by (simp add: did_change_splitting_var_none set_splitting_var_def)

theorem switch_to_none_resets_filters_witness:
  "splitting_var split_by_journal = ''journal''
   \<and> filter_journal split_by_journal = [''J2'']
   \<and> map_sum fst filter_journal (set_splitting_var ''None'' split_by_journal) = Inr [''J1'', ''J2'']
   \<and> map_sum fst filter_affiliation_country (set_splitting_var ''None'' split_by_journal)
       = Inr [''US'', ''FR'']
   \<and> map_sum fst notifications (set_splitting_var ''None'' split_by_journal)
       = Inr [''No more splitting. Filters reset to default'']"
proof -
  have h: "splitting_var split_by_journal = ''journal''"
    by (simp add: split_by_journal_def)
  have e: "set_splitting_var ''None'' split_by_journal =
          updated_echart_plot
            (split_by_journal\<lparr>splitting_var := ''None'',
               filter_journal := filter_journal_objects split_by_journal,
               filter_affiliation_country := filter_affiliation_country_objects split_by_journal,
               notifications := notifications split_by_journal
                 @ [''No more splitting. Filters reset to default'']\<rparr>)"
    using switch_to_none_resets_filters [of split_by_journal] h by blast
  have v0: "filter_journal split_by_journal = [''J2'']"
    by (simp add: split_by_journal_def)
  have v1: "map_sum fst filter_journal
              (updated_echart_plot
                (split_by_journal\<lparr>splitting_var := ''None'',
                   filter_journal := filter_journal_objects split_by_journal,
                   filter_affiliation_country := filter_affiliation_country_objects split_by_journal,
                   notifications := notifications split_by_journal
                     @ [''No more splitting. Filters reset to default'']\<rparr>))
            = Inr [''J1'', ''J2'']"
    by code_simp
  have v2: "map_sum fst filter_affiliation_country
              (updated_echart_plot
                (split_by_journal\<lparr>splitting_var := ''None'',
                   filter_journal := filter_journal_objects split_by_journal,
                   filter_affiliation_country := filter_affiliation_country_objects split_by_journal,
                   notifications := notifications split_by_journal
                     @ [''No more splitting. Filters reset to default'']\<rparr>))
            = Inr [''US'', ''FR'']"
    by code_simp
  have v3: "map_sum fst notifications
              (updated_echart_plot
                (split_by_journal\<lparr>splitting_var := ''None'',
                   filter_journal := filter_journal_objects split_by_journal,
                   filter_affiliation_country := filter_affiliation_country_objects split_by_journal,
                   notifications := notifications split_by_journal
                     @ [''No more splitting. Filters reset to default'']\<rparr>))
            = Inr [''No more splitting. Filters reset to default'']"
    by code_simp
  show ?thesis
    using h v0 v1 v2 v3 unfolding e by simp
qed

text \<open>
  Claim C7, as the code has it. When the split dimension changes to \<^verbatim>\<open>journal\<close>, the
  journal selection becomes the first 10 entries of \<^verbatim>\<open>value_counts\<close> (all of them when the
  dataset has fewer than 10 journals): no journal is selected twice, every selected journal has
  at least as many records as every journal left out, and journals with the same number of
  records stand in the order of their first appearance in the dataset. No journal name is
  compared.
\<close>

theorem journal_default_selection:
  assumes "splitting_var s = ''journal''"
  shows "did_change_splitting_var s =
           Inr (s\<lparr>filter_journal := take 10 (map fst (value_counts (map journal (raw_data s)))),
                  filter_affiliation_country := filter_affiliation_country_objects s,
                  notifications := notifications s @
                    [''Splitting by journal. Top 10 journals selected by default.'']\<rparr>)
       \<and> distinct (take 10 (map fst (value_counts (map journal (raw_data s)))))
       \<and> length (take 10 (map fst (value_counts (map journal (raw_data s)))))
           = min 10 (card (journal ` set (raw_data s)))
       \<and> (\<forall>j \<in> set (take 10 (map fst (value_counts (map journal (raw_data s))))).
            \<forall>r \<in> set (raw_data s).
              journal r \<notin> set (take 10 (map fst (value_counts (map journal (raw_data s))))) \<longrightarrow>
              count_list (map journal (raw_data s)) (journal r)
                \<le> count_list (map journal (raw_data s)) j)
       \<and> (\<forall>k. map fst (filter (\<lambda>p. snd p = k) (value_counts (map journal (raw_data s))))
                = filter (\<lambda>j. count_list (map journal (raw_data s)) j = k)
                    (series_unique (map journal (raw_data s))))"
proof (intro conjI)
  show "did_change_splitting_var s =
           Inr (s\<lparr>filter_journal := take 10 (map fst (value_counts (map journal (raw_data s)))),
                  filter_affiliation_country := filter_affiliation_country_objects s,
                  notifications := notifications s @
                    [''Splitting by journal. Top 10 journals selected by default.'']\<rparr>)"
    using assms by (simp add: did_change_splitting_var_journal take_map)
  show "distinct (take 10 (map fst (value_counts (map journal (raw_data s)))))"
    by (rule distinct_take) (rule distinct_map_fst_value_counts)
  show "length (take 10 (map fst (value_counts (map journal (raw_data s)))))
           = min 10 (card (journal ` set (raw_data s)))"
    by (simp add: length_value_counts min.commute)
  show "\<forall>j \<in> set (take 10 (map fst (value_counts (map journal (raw_data s))))).
            \<forall>r \<in> set (raw_data s).
              journal r \<notin> set (take 10 (map fst (value_counts (map journal (raw_data s))))) \<longrightarrow>
              count_list (map journal (raw_data s)) (journal r)
                \<le> count_list (map journal (raw_data s)) j"
  proof (intro ballI impI)
    fix j r
    assume j: "j \<in> set (take 10 (map fst (value_counts (map journal (raw_data s)))))"
       and r: "r \<in> set (raw_data s)"
       and n: "journal r \<notin> set (take 10 (map fst (value_counts (map journal (raw_data s)))))"
    from r have "journal r \<in> set (map journal (raw_data s))"
      by simp
    then show "count_list (map journal (raw_data s)) (journal r)
                \<le> count_list (map journal (raw_data s)) j"
      using j n by (intro value_counts_take_ge_rest [where n = 10])
  qed
  show "\<forall>k. map fst (filter (\<lambda>p. snd p = k) (value_counts (map journal (raw_data s))))
                = filter (\<lambda>j. count_list (map journal (raw_data s)) j = k)
                    (series_unique (map journal (raw_data s)))"
    by (simp add: value_counts_ties)
qed

theorem journal_default_selection_witness:
  "splitting_var split_by_journal = ''journal''
   \<and> map_sum fst filter_journal (did_change_splitting_var split_by_journal) = Inr [''J1'', ''J2'']
   \<and> count_list (map journal (raw_data split_by_journal)) ''J2''
       \<le> count_list (map journal (raw_data split_by_journal)) ''J1''"
proof -
  have h: "splitting_var split_by_journal = ''journal''"
    by (simp add: split_by_journal_def)
  have v: "take 10 (map fst (value_counts (map journal (raw_data split_by_journal)))) = [''J1'', ''J2'']"
    by code_simp
  have c: "count_list (map journal (raw_data split_by_journal)) ''J2''
       \<le> count_list (map journal (raw_data split_by_journal)) ''J1''"
    by code_simp
  show ?thesis
    using journal_default_selection [OF h] h c unfolding v by simp
qed

text \<open>
  Eleven journals with one record each, first seen in the order K, J, ..., A: the selection is
  the first ten seen, K to B. A is left out although it has as many records as K and its name
  is smaller.
\<close>

theorem journal_ties_not_by_name:
  "map_sum fst filter_journal
     (did_change_splitting_var ((dashboard_on eleven_journals)\<lparr>splitting_var := ''journal''\<rparr>))
     = Inr [''K'', ''J'', ''I'', ''H'', ''G'', ''F'', ''E'', ''D'', ''C'', ''B'']
   \<and> count_list (map journal eleven_journals) ''A'' = count_list (map journal eleven_journals) ''K''
   \<and> ''A'' < ''K''"
  by code_simp

text \<open>
  Claim C4, as the code has it. When the split dimension changes to
  \<^verbatim>\<open>affiliation_country\<close> and fewer than 11 countries occur more than 10 times, the method
  ends in the \<^verbatim>\<open>IndexError\<close> of the lookup \<^verbatim>\<open>[10]\<close> itself: nothing checks the number
  of candidates before. The journal selection has been reset and the counts memoised by
  then; the country selection is as it was and no notification is sent.
\<close>

theorem too_few_countries_index_error:
  assumes "splitting_var s = ''affiliation_country''"
      and "length (filter (\<lambda>(c, n). n > 10) (fst (get_countries_with_count s))) < 11"
  shows "did_change_splitting_var s =
           Inl (IndexError,
                s\<lparr>filter_journal := filter_journal_objects s,
                  countries_cache := Some (fst (get_countries_with_count s))\<rparr>)"
proof -
  have f: "fst (get_countries_with_count (s\<lparr>filter_journal := filter_journal_objects s\<rparr>))
             = fst (get_countries_with_count s)"
    by (simp add: fst_get_countries_with_count split: option.splits)
  show ?thesis
    using assms(2)
    by (simp add: did_change_splitting_var_country [OF assms(1)] Let_def f
        snd_get_countries_with_count)
qed

theorem too_few_countries_index_error_witness:
  "splitting_var ((loaded three_records)\<lparr>splitting_var := ''affiliation_country''\<rparr>)
     = ''affiliation_country''
   \<and> length (filter (\<lambda>(c, n). n > 10)
        (fst (get_countries_with_count
               ((loaded three_records)\<lparr>splitting_var := ''affiliation_country''\<rparr>)))) < 11
   \<and> map_sum fst filter_affiliation_country
        (did_change_splitting_var ((loaded three_records)\<lparr>splitting_var := ''affiliation_country''\<rparr>))
       = Inl IndexError"
proof -
  have h1: "splitting_var ((loaded three_records)\<lparr>splitting_var := ''affiliation_country''\<rparr>)
     = ''affiliation_country''"
    by simp
  have h2: "length (filter (\<lambda>(c, n). n > 10)
        (fst (get_countries_with_count
               ((loaded three_records)\<lparr>splitting_var := ''affiliation_country''\<rparr>)))) < 11"
    by code_simp
  show ?thesis
    using too_few_countries_index_error [OF h1 h2] h1 h2 by simp
qed

text \<open>
  On the scenario of the specification no country occurs more than 10 times: the exception is
  \<^verbatim>\<open>IndexError\<close>, which is not \<^verbatim>\<open>InsufficientDataError\<close>.
\<close>

theorem too_few_countries_not_insufficient_data:
  "map_sum fst filter_affiliation_country
     (did_change_splitting_var ((dashboard_on three_records)\<lparr>splitting_var := ''affiliation_country''\<rparr>))
     = Inl IndexError
   \<and> IndexError \<noteq> InsufficientDataError"
  by code_simp

text \<open>
  Claim C2 at eleven countries that occur 21, 20, ..., 11 times. The 10th-largest count is 12,
  yet the selection holds all eleven countries, the one that occurs 11 times included:
  \<^verbatim>\<open>top_10_min\<close> is read at index 10 of the descending counts, which is the 11th-largest.
\<close>

theorem eleven_countries_all_selected:
  "map_sum fst filter_affiliation_country
     (did_change_splitting_var
        ((dashboard_on eleven_countries)\<lparr>splitting_var := ''affiliation_country''\<rparr>))
     = Inr country_names
   \<and> length country_names = 11
   \<and> rev (sort (map snd (count_countries eleven_countries))) ! 9 = 12
   \<and> map_of (count_countries eleven_countries) ''KK'' = Some 11"
  by code_simp



subsection \<open>The aggregation engine\<close>





















subsection \<open>The chart series builder\<close>



lemma mapM_Inr_set: "mapM f xs = Inr ys \<Longrightarrow> y \<in> set ys \<Longrightarrow> \<exists>x \<in> set xs. f x = Inr y"
  by (induction xs arbitrary: ys) (auto split: sum.splits)





















subsection \<open>The extraction tool changes\<close>














subsection \<open>Further properties\<close>

lemma rev_sort_nth_mono:
  assumes "i \<le> j" "j < length xs"
  shows "rev (sort xs) ! j \<le> rev (sort xs) ! (i::nat)"
proof -
  have "sorted_wrt (\<ge>) (rev (sort xs))"
    by (simp add: sorted_wrt_rev)
  then show ?thesis
    using assms by (cases "i = j") (auto simp: sorted_wrt_iff_nth_less)
qed

lemma length_filter_rev_sort:
  "length (filter P (rev (sort xs))) = length (filter P xs)"
  by (simp add: rev_filter [symmetric] filter_sort)

lemma at_least_eleven:
  fixes xs :: "nat list"
  assumes "10 < length xs"
  shows "11 \<le> length (filter (\<lambda>n. rev (sort xs) ! 10 \<le> n) xs)"
proof -
  let ?ys = "rev (sort xs)"
  let ?P = "\<lambda>n. ?ys ! 10 \<le> n"
  have "\<forall>y \<in> set (take 11 ?ys). ?P y"
  proof
    fix y assume "y \<in> set (take 11 ?ys)"
    then obtain i where "i < 11" "i < length ?ys" "y = ?ys ! i"
      by (auto simp: in_set_conv_nth)
    then show "?P y"
      using rev_sort_nth_mono [of i 10 xs] assms by simp
  qed
  then have "filter ?P (take 11 ?ys) = take 11 ?ys"
    by (simp add: filter_id_conv)
  then have "length (filter ?P (take 11 ?ys)) = 11"
    using assms by simp
  moreover have "length (filter ?P (take 11 ?ys)) \<le> length (filter ?P ?ys)"
  proof -
    have "filter ?P ?ys = filter ?P (take 11 ?ys) @ filter ?P (drop 11 ?ys)"
      by (metis append_take_drop_id filter_append)
    then show ?thesis by simp
  qed
  ultimately show ?thesis
    by (simp add: length_filter_rev_sort)
qed

text \<open>
  Whenever the change to \<^verbatim>\<open>affiliation_country\<close> ends without an exception, more than 10
  countries occur more than 10 times, the selection is every such country whose count is at
  least the count at index 10 of the descending counts, every country whose count is at least
  the 10th-largest is in it, and it has at least 11 countries.
\<close>

theorem country_default_selection:
  assumes sv: "splitting_var s = ''affiliation_country''"
      and run: "did_change_splitting_var s = Inr s'"
  shows "10 < length (filter (\<lambda>(c, n). n > 10) (fst (get_countries_with_count s)))
       \<and> filter_affiliation_country s'
           = map fst (filter (\<lambda>(c, n).
                 rev (sort (map snd (filter (\<lambda>(c, n). n > 10) (fst (get_countries_with_count s))))) ! 10 \<le> n)
               (filter (\<lambda>(c, n). n > 10) (fst (get_countries_with_count s))))
       \<and> (\<forall>p \<in> set (filter (\<lambda>(c, n). n > 10) (fst (get_countries_with_count s))).
            rev (sort (map snd (filter (\<lambda>(c, n). n > 10) (fst (get_countries_with_count s))))) ! 9 \<le> snd p
            \<longrightarrow> fst p \<in> set (filter_affiliation_country s'))
       \<and> 11 \<le> length (filter_affiliation_country s')"
proof -
  let ?cands = "filter (\<lambda>(c, n). n > 10) (fst (get_countries_with_count s))"
  let ?t = "rev (sort (map snd ?cands)) ! 10"
  have f: "fst (get_countries_with_count (s\<lparr>filter_journal := filter_journal_objects s\<rparr>))
             = fst (get_countries_with_count s)"
    by (simp add: fst_get_countries_with_count split: option.splits)
  from run have len: "10 < length ?cands"
    by (simp add: did_change_splitting_var_country [OF sv] Let_def f split: if_splits)
  from run len have sel: "filter_affiliation_country s' = map fst (filter (\<lambda>(c, n). ?t \<le> n) ?cands)"
    by (auto simp: did_change_splitting_var_country [OF sv] Let_def f)
  have le: "?t \<le> rev (sort (map snd ?cands)) ! 9"
    using rev_sort_nth_mono [of 9 10 "map snd ?cands"] len by simp
  have ties: "\<forall>p \<in> set ?cands. rev (sort (map snd ?cands)) ! 9 \<le> snd p
            \<longrightarrow> fst p \<in> set (filter_affiliation_country s')"
  proof (intro ballI impI)
    fix p assume p: "p \<in> set ?cands" and "rev (sort (map snd ?cands)) ! 9 \<le> snd p"
    with le have "?t \<le> snd p" by simp
    with p have "p \<in> set (filter (\<lambda>(c, n). ?t \<le> n) ?cands)"
      by (auto simp: case_prod_beta)
    then show "fst p \<in> set (filter_affiliation_country s')"
      unfolding sel set_map by (rule imageI)
  qed
  have "length (filter_affiliation_country s') = length (filter (\<lambda>n. ?t \<le> n) (map snd ?cands))"
    unfolding sel by (simp add: filter_map comp_def case_prod_beta)
  moreover have "11 \<le> length (filter (\<lambda>n. ?t \<le> n) (map snd ?cands))"
    using len by (intro at_least_eleven) simp
  ultimately have "11 \<le> length (filter_affiliation_country s')"
    by simp
  with len sel ties show ?thesis
    by blast
qed

theorem country_default_selection_witness:
  "splitting_var ((dashboard_on eleven_countries)\<lparr>splitting_var := ''affiliation_country''\<rparr>)
     = ''affiliation_country''
   \<and> did_change_splitting_var ((dashboard_on eleven_countries)\<lparr>splitting_var := ''affiliation_country''\<rparr>)
       = Inr (projr (did_change_splitting_var
                ((dashboard_on eleven_countries)\<lparr>splitting_var := ''affiliation_country''\<rparr>)))
   \<and> 11 \<le> length (filter_affiliation_country
         (projr (did_change_splitting_var
                ((dashboard_on eleven_countries)\<lparr>splitting_var := ''affiliation_country''\<rparr>))))"
proof -
  have h1: "splitting_var ((dashboard_on eleven_countries)\<lparr>splitting_var := ''affiliation_country''\<rparr>)
     = ''affiliation_country''"
    by simp
  have "\<not> isl (did_change_splitting_var
                ((dashboard_on eleven_countries)\<lparr>splitting_var := ''affiliation_country''\<rparr>))"
    by code_simp
  then have h2: "did_change_splitting_var
                   ((dashboard_on eleven_countries)\<lparr>splitting_var := ''affiliation_country''\<rparr>)
       = Inr (projr (did_change_splitting_var
                ((dashboard_on eleven_countries)\<lparr>splitting_var := ''affiliation_country''\<rparr>)))"
    by simp
  show ?thesis
    using country_default_selection [OF h1 h2] h1 h2 by blast
qed

text \<open>
  The scenario of the specification, every journal and country selected, not split, the
  metric \<^verbatim>\<open>percent_is_data_pred\<close>: the rows are those of 2020 and 2021 with the values
  50 and 100.
\<close>

theorem scenario_percent_is_data_pred:
  "map_sum id (map row_year) (filtered_grouped_data (loaded three_records)) = Inr [2020, 2021]
   \<and> (case filtered_grouped_data (loaded three_records) of
         Inl e \<Rightarrow> Inl e
       | Inr df \<Rightarrow> frame_column ''percent_is_data_pred'' df) = Inr [Some 50, Some 100]"
  by code_simp

end
